theory Spec2Isabelle
  imports Main
begin

section \<open>Python strings\<close>

text \<open>
  A Python \<open>str\<close> is a sequence of Unicode code points; it is modelled as a list of
  natural numbers. \<open>py\<close> turns an ASCII literal of the source into such a list.
\<close>

type_synonym pystr = "nat list"

definition py :: "string \<Rightarrow> pystr" where
  "py s = map of_char s"

text \<open>\<open>s.endswith(suf)\<close>\<close>

definition endswith :: "pystr \<Rightarrow> pystr \<Rightarrow> bool" where
  "endswith s suf \<longleftrightarrow> length suf \<le> length s \<and> drop (length s - length suf) s = suf"

text \<open>\<open>sep.join(xs)\<close>\<close>

fun join :: "pystr \<Rightarrow> pystr list \<Rightarrow> pystr" where
  "join sep [] = []"
| "join sep [x] = x"
| "join sep (x # y # ys) = x @ sep @ join sep (y # ys)"

text \<open>
  The line boundaries of \<open>str.splitlines()\<close>: LF, VT, FF, CR, FS, GS, RS, NEL, LS and PS.
\<close>

definition is_linebreak :: "nat \<Rightarrow> bool" where
  "is_linebreak c \<longleftrightarrow> c \<in> {10, 11, 12, 13, 28, 29, 30, 133, 8232, 8233}"

text \<open>
  \<open>str.splitlines()\<close> without \<open>keepends\<close>. \<open>cur\<close> is the line read so far. A CR directly
  followed by LF is one boundary. A string that ends on a boundary has no last empty line.
\<close>

fun splitlines_from :: "pystr \<Rightarrow> pystr \<Rightarrow> pystr list" where
  "splitlines_from cur [] = (if cur = [] then [] else [cur])"
| "splitlines_from cur [c] = (if is_linebreak c then [cur] else [cur @ [c]])"
| "splitlines_from cur (c # d # s) =
     (if is_linebreak c then
        (if c = 13 \<and> d = 10 then cur # splitlines_from [] s
         else cur # splitlines_from [] (d # s))
      else splitlines_from (cur @ [c]) (d # s))"

definition splitlines :: "pystr \<Rightarrow> pystr list" where
  "splitlines s = splitlines_from [] s"

text \<open>The white space of \<open>str.strip()\<close> (the characters for which \<open>str.isspace\<close> holds).\<close>

definition is_space :: "nat \<Rightarrow> bool" where
  "is_space c \<longleftrightarrow>
     (9 \<le> c \<and> c \<le> 13) \<or> (28 \<le> c \<and> c \<le> 32) \<or> c = 133 \<or> c = 160 \<or> c = 5760 \<or>
     (8192 \<le> c \<and> c \<le> 8202) \<or> c = 8232 \<or> c = 8233 \<or> c = 8239 \<or> c = 8287 \<or> c = 12288"

definition strip :: "pystr \<Rightarrow> pystr" where
  "strip s = rev (dropWhile is_space (rev (dropWhile is_space s)))"

text \<open>
  \<open>s.encode('utf-8')\<close> succeeds unless \<open>s\<close> holds a surrogate code point (U+D800 to
  U+DFFF); it then raises \<open>UnicodeEncodeError\<close>.
\<close>

definition utf8_encodable :: "pystr \<Rightarrow> bool" where
  "utf8_encodable s = list_all (\<lambda>c. c < 55296 \<or> 57343 < c) s"

section \<open>Regular expressions\<close>

text \<open>
  The fragment of Python's \<open>re\<close> syntax that the two URL patterns use: a literal character,
  \<open>.\<close> (any character but LF), a negated one-character class \<open>[^c]\<close>, the greedy
  \<open>?\<close>, \<open>*\<close> and \<open>+\<close>, a capturing group and concatenation.
\<close>

datatype regex =
    Empty
  | Lit nat
  | Dot
  | NotChar nat
  | Opt regex
  | Star regex
  | Plus regex
  | Group regex
  | Seq regex regex

text \<open>
  A matcher state is the input still to be read and the groups captured so far, in the
  order in which they closed.
\<close>

type_synonym mstate = "pystr \<times> pystr list"

fun rank :: "regex \<Rightarrow> nat" where
  "rank Empty = 0"
| "rank (Lit c) = 0"
| "rank Dot = 0"
| "rank (NotChar c) = 0"
| "rank (Opt r) = Suc (rank r)"
| "rank (Star r) = Suc (rank r)"
| "rank (Plus r) = Suc (Suc (rank r))"
| "rank (Group r) = Suc (rank r)"
| "rank (Seq r1 r2) = Suc (rank r1 + rank r2)"

text \<open>
  \<open>matches r st\<close> lists every way of matching \<open>r\<close> at the start of the input of \<open>st\<close>, in
  the order in which a backtracking matcher tries them: a greedy operator tries one more
  repetition before it tries to stop. An iteration of \<open>*\<close> that reads nothing ends the
  repetition.
\<close>

function matches :: "regex \<Rightarrow> mstate \<Rightarrow> mstate list" where
  "matches Empty st = [st]"
| "matches (Lit c) (s, gs) =
     (case s of [] \<Rightarrow> [] | x # xs \<Rightarrow> if x = c then [(xs, gs)] else [])"
| "matches Dot (s, gs) =
     (case s of [] \<Rightarrow> [] | x # xs \<Rightarrow> if x \<noteq> 10 then [(xs, gs)] else [])"
| "matches (NotChar c) (s, gs) =
     (case s of [] \<Rightarrow> [] | x # xs \<Rightarrow> if x \<noteq> c then [(xs, gs)] else [])"
| "matches (Opt r) st = matches r st @ [st]"
| "matches (Star r) st =
     concat (map (matches (Star r))
       (filter (\<lambda>st'. length (fst st') < length (fst st)) (matches r st))) @ [st]"
| "matches (Plus r) st = concat (map (matches (Star r)) (matches r st))"
| "matches (Group r) (s, gs) =
     map (\<lambda>(s', gs'). (s', gs' @ [take (length s - length s') s])) (matches r (s, gs))"
| "matches (Seq r1 r2) st = concat (map (matches r2) (matches r1 st))"
  by pat_completeness auto
termination
  by (relation "measures [\<lambda>(r, st). rank r, \<lambda>(r, st). length (fst st)]") auto

text \<open>\<open>re.match(pattern, s)\<close>: the first match at the start of \<open>s\<close>, as its groups.\<close>

definition re_match :: "regex \<Rightarrow> pystr \<Rightarrow> pystr list option" where
  "re_match r s = (case matches r (s, []) of [] \<Rightarrow> None | (rest, gs) # _ \<Rightarrow> Some gs)"

text \<open>A literal string as a pattern.\<close>

fun lits :: "pystr \<Rightarrow> regex" where
  "lits [] = Empty"
| "lits (c # cs) = Seq (Lit c) (lits cs)"

section \<open>parse_github_url\<close>

text \<open>\<open>([^/]+)\<close>\<close>

definition name_group :: regex where
  "name_group = Group (Plus (NotChar 47))"

text \<open>\<open>([^/]+)/([^/]+)/?.*\<close>, the part of the first pattern after the host.\<close>

definition https_tail :: regex where
  "https_tail =
     Seq name_group (Seq (Lit 47) (Seq name_group (Seq (Opt (Lit 47)) (Star Dot))))"

text \<open>\<open>https?://github\.com/([^/]+)/([^/]+)/?.*\<close>\<close>

definition https_pattern :: regex where
  "https_pattern =
     Seq (lits (py ''http'')) (Seq (Opt (Lit 115)) (Seq (lits (py ''://github.com/'')) https_tail))"

text \<open>\<open>([^/]+)/([^/]+)\.git\<close>, the part of the second pattern after the host.\<close>

definition ssh_tail :: regex where
  "ssh_tail = Seq name_group (Seq (Lit 47) (Seq name_group (lits (py ''.git''))))"

text \<open>\<open>git@github\.com:([^/]+)/([^/]+)\.git\<close>\<close>

definition ssh_pattern :: regex where
  "ssh_pattern = Seq (lits (py ''git@github.com:'')) ssh_tail"

definition patterns :: "regex list" where
  "patterns = [https_pattern, ssh_pattern]"

text \<open>
  The loop over the patterns. The result \<open>None\<close> is the pair \<open>(None, None)\<close> of the source.
  Both patterns have two groups, so the unpacking of \<open>match.groups()\<close> has two values
  (lemma \<open>patterns_two_groups\<close>) and the last case is never taken.
\<close>

fun parse_with :: "regex list \<Rightarrow> pystr \<Rightarrow> (pystr \<times> pystr) option" where
  "parse_with [] url = None"
| "parse_with (pattern # rest) url =
     (case re_match pattern url of
        None \<Rightarrow> parse_with rest url
      | Some gs \<Rightarrow>
          (case gs of
             [owner, repo] \<Rightarrow>
               Some (owner,
                     if endswith repo (py ''.git'') then take (length repo - 4) repo else repo)
           | _ \<Rightarrow> None))"

definition parse_github_url :: "pystr \<Rightarrow> (pystr \<times> pystr) option" where
  "parse_github_url url = parse_with patterns url"

section \<open>Python values and exceptions\<close>

text \<open>
  A decoded JSON document, as \<open>response.json()\<close> and \<open>request.get_json()\<close> return it.
  \<open>JNull\<close> is Python's \<open>None\<close>. An object is the list of its items; a key is looked up
  with \<open>map_of\<close>. Numbers matter to the code only through their truth value, so integers
  stand for them.
\<close>

datatype json =
    JNull
  | JBool bool
  | JNum int
  | JStr pystr
  | JArr "json list"
  | JObj "(pystr \<times> json) list"

text \<open>The exception classes the code can meet; all of them are subclasses of \<open>Exception\<close>.\<close>

datatype exc =
    RequestException
  | AttributeError
  | KeyError
  | TypeError
  | ValueError
  | UnicodeEncodeError
  | OtherError

text \<open>The truth value of a Python value, as \<open>if not x\<close> tests it.\<close>

fun truthy :: "json \<Rightarrow> bool" where
  "truthy JNull = False"
| "truthy (JBool b) = b"
| "truthy (JNum n) = (n \<noteq> 0)"
| "truthy (JStr s) = (s \<noteq> [])"
| "truthy (JArr xs) = (xs \<noteq> [])"
| "truthy (JObj kvs) = (kvs \<noteq> [])"

text \<open>\<open>v.get(key, default)\<close>: only a dict has the method.\<close>

fun py_get :: "json \<Rightarrow> pystr \<Rightarrow> json \<Rightarrow> exc + json" where
  "py_get (JObj kvs) key dflt = (case map_of kvs key of None \<Rightarrow> Inr dflt | Some v \<Rightarrow> Inr v)"
| "py_get _ key dflt = Inl AttributeError"

text \<open>\<open>v[key]\<close> for a string key.\<close>

fun py_item :: "json \<Rightarrow> pystr \<Rightarrow> exc + json" where
  "py_item (JObj kvs) key = (case map_of kvs key of None \<Rightarrow> Inl KeyError | Some v \<Rightarrow> Inr v)"
| "py_item _ key = Inl TypeError"

text \<open>\<open>for item in v\<close>: the items of a list, the keys of a dict, the characters of a string.\<close>

fun py_iter :: "json \<Rightarrow> exc + json list" where
  "py_iter (JArr xs) = Inr xs"
| "py_iter (JObj kvs) = Inr (map (\<lambda>kv. JStr (fst kv)) kvs)"
| "py_iter (JStr s) = Inr (map (\<lambda>c. JStr [c]) s)"
| "py_iter _ = Inl TypeError"

text \<open>\<open>key in v\<close> for a string key: a key of a dict, an element of a list, a substring.\<close>

fun py_contains :: "json \<Rightarrow> pystr \<Rightarrow> exc + bool" where
  "py_contains (JObj kvs) key = Inr (key \<in> set (map fst kvs))"
| "py_contains (JArr xs) key = Inr (JStr key \<in> set xs)"
| "py_contains (JStr s) key =
     Inr (list_ex (\<lambda>i. take (length key) (drop i s) = key) [0..<Suc (length s)])"
| "py_contains _ key = Inl TypeError"

section \<open>The environment\<close>

text \<open>
  An outbound request names the URL that the code formats: the repository metadata of
  \<open>owner/repo\<close>, the recursive tree of a branch, and a blob by the URL of its tree entry.
\<close>

datatype request =
    RepoInfo pystr pystr
  | TreeListing pystr pystr json
  | BlobContent json

text \<open>
  What the code does not decide itself. \<open>api_get n req\<close> is the outcome of the \<open>n\<close>-th
  outbound call when it is \<open>requests.get\<close>, \<open>raise_for_status\<close> and \<open>json()\<close> on \<open>req\<close>: the
  decoded document or the exception raised. \<open>b64decode\<close> is \<open>base64.b64decode\<close>,
  \<open>utf8_decode\<close> is \<open>bytes.decode('utf-8')\<close> with \<open>None\<close> for \<open>UnicodeDecodeError\<close>, and
  \<open>py_repr\<close> is what an f-string writes for a value that is not a string.
\<close>

record env =
  api_get :: "nat \<Rightarrow> request \<Rightarrow> exc + json"
  b64decode :: "json \<Rightarrow> exc + nat list"
  utf8_decode :: "nat list \<Rightarrow> pystr option"
  py_repr :: "json \<Rightarrow> pystr"

text \<open>\<open>f"{v}"\<close>\<close>

definition format_value :: "env \<Rightarrow> json \<Rightarrow> pystr" where
  "format_value e v = (case v of JStr s \<Rightarrow> s | _ \<Rightarrow> py_repr e v)"

section \<open>get_default_branch\<close>

text \<open>The body of the \<open>try\<close> block.\<close>

definition get_default_branch_try :: "env \<Rightarrow> nat \<Rightarrow> pystr \<Rightarrow> pystr \<Rightarrow> exc + json" where
  "get_default_branch_try e n owner repo =
     (case api_get e n (RepoInfo owner repo) of
        Inl x \<Rightarrow> Inl x
      | Inr data \<Rightarrow> py_get data (py ''default_branch'') (JStr (py ''main'')))"

text \<open>Only \<open>RequestException\<close> is caught; the function then returns \<open>None\<close>.\<close>

definition get_default_branch :: "env \<Rightarrow> nat \<Rightarrow> pystr \<Rightarrow> pystr \<Rightarrow> exc + json" where
  "get_default_branch e n owner repo =
     (case get_default_branch_try e n owner repo of
        Inl x \<Rightarrow> if x = RequestException then Inr JNull else Inl x
      | Inr branch \<Rightarrow> Inr branch)"

section \<open>get_repo_files\<close>

record file_info =
  file_path :: json
  blob_url :: json

text \<open>The loop over the tree: \<open>all_files\<close> grows by the blobs, in the order of the tree.\<close>

fun collect_blobs :: "json list \<Rightarrow> file_info list \<Rightarrow> exc + file_info list" where
  "collect_blobs [] all_files = Inr all_files"
| "collect_blobs (item # items) all_files =
     (case py_item item (py ''type'') of
        Inl x \<Rightarrow> Inl x
      | Inr ty \<Rightarrow>
          if ty = JStr (py ''blob'') then
            (case py_item item (py ''path'') of
               Inl x \<Rightarrow> Inl x
             | Inr p \<Rightarrow>
                 (case py_item item (py ''url'') of
                    Inl x \<Rightarrow> Inl x
                  | Inr u \<Rightarrow>
                      collect_blobs items (all_files @ [\<lparr>file_path = p, blob_url = u\<rparr>])))
          else collect_blobs items all_files)"

text \<open>
  The body of the \<open>try\<close> block. The value of \<open>truncated\<close> is read and only decides whether
  a warning is printed.
\<close>

definition get_repo_files_try ::
  "env \<Rightarrow> nat \<Rightarrow> pystr \<Rightarrow> pystr \<Rightarrow> json \<Rightarrow> exc + file_info list" where
  "get_repo_files_try e n owner repo branch =
     (case api_get e n (TreeListing owner repo branch) of
        Inl x \<Rightarrow> Inl x
      | Inr data \<Rightarrow>
          (case py_get data (py ''truncated'') JNull of
             Inl x \<Rightarrow> Inl x
           | Inr truncated \<Rightarrow>
               (case py_get data (py ''tree'') (JArr []) of
                  Inl x \<Rightarrow> Inl x
                | Inr tree \<Rightarrow>
                    (case py_iter tree of
                       Inl x \<Rightarrow> Inl x
                     | Inr items \<Rightarrow> collect_blobs items []))))"

text \<open>Both \<open>except\<close> clauses return \<open>None\<close>.\<close>

definition get_repo_files ::
  "env \<Rightarrow> nat \<Rightarrow> pystr \<Rightarrow> pystr \<Rightarrow> json \<Rightarrow> exc + file_info list option" where
  "get_repo_files e n owner repo branch =
     (case get_repo_files_try e n owner repo branch of
        Inl x \<Rightarrow> Inr None
      | Inr files \<Rightarrow> Inr (Some files))"

section \<open>get_file_content\<close>

text \<open>The message printed before \<open>None\<close> is returned.\<close>

datatype skip_message =
    SkippingBinary
  | SkippingUnsupportedEncoding
  | ErrorFetching
  | ErrorProcessing

text \<open>
  The result of \<open>get_file_content\<close>: the decoded text, or \<open>None\<close> together with the message
  printed on the way.
\<close>

datatype content = Text pystr | NoContent skip_message

definition get_file_content_try :: "env \<Rightarrow> nat \<Rightarrow> json \<Rightarrow> exc + content" where
  "get_file_content_try e n u =
     (case api_get e n (BlobContent u) of
        Inl x \<Rightarrow> Inl x
      | Inr blob_data \<Rightarrow>
          (case py_get blob_data (py ''encoding'') JNull of
             Inl x \<Rightarrow> Inl x
           | Inr encoding \<Rightarrow>
               if encoding = JStr (py ''base64'') then
                 (case py_item blob_data (py ''content'') of
                    Inl x \<Rightarrow> Inl x
                  | Inr c \<Rightarrow>
                      (case b64decode e c of
                         Inl x \<Rightarrow> Inl x
                       | Inr content_bytes \<Rightarrow>
                           (case utf8_decode e content_bytes of
                              Some s \<Rightarrow> Inr (Text s)
                            | None \<Rightarrow> Inr (NoContent SkippingBinary))))
               else Inr (NoContent SkippingUnsupportedEncoding)))"

definition get_file_content :: "env \<Rightarrow> nat \<Rightarrow> json \<Rightarrow> exc + content" where
  "get_file_content e n u =
     (case get_file_content_try e n u of
        Inl x \<Rightarrow>
          if x = RequestException then Inr (NoContent ErrorFetching)
          else Inr (NoContent ErrorProcessing)
      | Inr c \<Rightarrow> Inr c)"

section \<open>convert_repo\<close>

text \<open>
  The outcome of a request: a JSON error with its status code, the markdown document
  (status 200) with the two counters of the final log line, or an exception that leaves
  the handler. What the handler prints is not part of the model.
\<close>

datatype response =
    JsonError nat pystr
  | Markdown pystr nat nat
  | Unhandled exc

text \<open>Lines 152 to 154: the lines of the content that are not blank, joined by LF.\<close>

definition processed_content :: "pystr \<Rightarrow> pystr" where
  "processed_content c =
     join (py ''\<newline>'') (filter (\<lambda>line. strip line \<noteq> []) (splitlines c))"

definition heading :: "env \<Rightarrow> json \<Rightarrow> pystr" where
  "heading e p = py ''## `'' @ format_value e p @ py ''`\<newline>''"

definition skip_notice :: pystr where
  "skip_notice = py ''*Content skipped (binary, non-UTF8, or error fetching).*\<newline>''"

text \<open>
  The state of the loop: \<open>markdown_content\<close>, \<open>processed_count\<close> and \<open>skipped_count\<close>.
\<close>

type_synonym loop_state = "pystr list \<times> nat \<times> nat"

text \<open>The body of the loop once the content is fetched.\<close>

fun add_file :: "env \<Rightarrow> file_info \<Rightarrow> content \<Rightarrow> loop_state \<Rightarrow> loop_state" where
  "add_file e fi (Text c) (md, processed, skipped) =
     (md @ [heading e (file_path fi), py ''```'', processed_content c, py ''```\<newline>'',
            py ''---\<newline>''],
      processed + 1, skipped)"
| "add_file e fi (NoContent m) (md, processed, skipped) =
     (md @ [heading e (file_path fi), skip_notice, py ''---\<newline>''],
      processed, skipped + 1)"

text \<open>The loop; \<open>n\<close> counts the outbound calls made so far.\<close>

fun process_files :: "env \<Rightarrow> nat \<Rightarrow> file_info list \<Rightarrow> loop_state \<Rightarrow> exc + loop_state" where
  "process_files e n [] st = Inr st"
| "process_files e n (fi # rest) st =
     (case get_file_content e n (blob_url fi) of
        Inl x \<Rightarrow> Inl x
      | Inr c \<Rightarrow> process_files e (Suc n) rest (add_file e fi c st))"

definition title :: "pystr \<Rightarrow> pystr \<Rightarrow> pystr" where
  "title owner repo =
     py ''# Codebase for '' @ owner @ py ''/'' @ repo @ py ''\<newline>\<newline>''"

definition missing_url_error :: response where
  "missing_url_error = JsonError 400 (py ''Missing 'url' in request body'')"

definition invalid_url_error :: response where
  "invalid_url_error = JsonError 400 (py ''Invalid GitHub repository URL format.'')"

definition branch_error :: "pystr \<Rightarrow> pystr \<Rightarrow> response" where
  "branch_error owner repo =
     JsonError 404
       (py ''Could not determine default branch for '' @ owner @ py ''/'' @ repo @
        py ''. Repo might be private, non-existent, or API error occurred.'')"

definition file_list_error :: "pystr \<Rightarrow> pystr \<Rightarrow> response" where
  "file_list_error owner repo =
     JsonError 500
       (py ''Could not fetch file list for '' @ owner @ py ''/'' @ repo @
        py ''. Check permissions or API rate limits.'')"

definition empty_repo_error :: "pystr \<Rightarrow> pystr \<Rightarrow> response" where
  "empty_repo_error owner repo =
     JsonError 404
       (py ''Repository '' @ owner @ py ''/'' @ repo @
        py '' appears to be empty or no files found.'')"

text \<open>
  Line 177: \<open>Response(final_markdown, ...)\<close> encodes the document as UTF-8, and the
  encoding raises \<open>UnicodeEncodeError\<close> for a lone surrogate. The errors built with
  \<open>jsonify\<close> escape every character outside ASCII and cannot fail so.
\<close>

definition markdown_response :: "pystr \<Rightarrow> nat \<Rightarrow> nat \<Rightarrow> response" where
  "markdown_response final_markdown processed_count skipped_count =
     (if utf8_encodable final_markdown
      then Markdown final_markdown processed_count skipped_count
      else Unhandled UnicodeEncodeError)"

text \<open>
  Lines 116 to 177, for a \<open>repo_url\<close> that is a string. The metadata request is outbound
  call 0, the tree request call 1, and the blobs follow from call 2.
\<close>

definition convert_url :: "env \<Rightarrow> pystr \<Rightarrow> response" where
  "convert_url e repo_url =
     (case parse_github_url repo_url of
        None \<Rightarrow> invalid_url_error
      | Some (owner, repo) \<Rightarrow>
          if owner = [] \<or> repo = [] then invalid_url_error
          else
            (case get_default_branch e 0 owner repo of
               Inl x \<Rightarrow> Unhandled x
             | Inr default_branch \<Rightarrow>
                 if \<not> truthy default_branch then branch_error owner repo
                 else
                   (case get_repo_files e 1 owner repo default_branch of
                      Inl x \<Rightarrow> Unhandled x
                    | Inr None \<Rightarrow> file_list_error owner repo
                    | Inr (Some files_to_process) \<Rightarrow>
                        if files_to_process = [] then empty_repo_error owner repo
                        else
                          (case process_files e 2 files_to_process ([title owner repo], 0, 0) of
                             Inl x \<Rightarrow> Unhandled x
                           | Inr (markdown_content, processed_count, skipped_count) \<Rightarrow>
                               markdown_response (join (py ''\<newline>'') markdown_content)
                                 processed_count skipped_count))))"

text \<open>
  The handler; \<open>data\<close> is what \<open>request.get_json()\<close> returned. \<open>re.match\<close> raises
  \<open>TypeError\<close> for a \<open>url\<close> that is not a string.
\<close>

definition convert_repo :: "env \<Rightarrow> json \<Rightarrow> response" where
  "convert_repo e data =
     (if \<not> truthy data then missing_url_error
      else
        (case py_contains data (py ''url'') of
           Inl x \<Rightarrow> Unhandled x
         | Inr has_url \<Rightarrow>
             if \<not> has_url then missing_url_error
             else
               (case py_item data (py ''url'') of
                  Inl x \<Rightarrow> Unhandled x
                | Inr repo_url \<Rightarrow>
                    (case repo_url of
                       JStr u \<Rightarrow> convert_url e u
                     | _ \<Rightarrow> Unhandled TypeError))))"

section \<open>Auxiliary definitions\<close>

text \<open>
  The number of groups of a pattern, and the patterns whose groups are not under a
  repetition or an option: every match of such a pattern captures each group once.
\<close>

fun ngroups :: "regex \<Rightarrow> nat" where
  "ngroups Empty = 0"
| "ngroups (Lit c) = 0"
| "ngroups Dot = 0"
| "ngroups (NotChar c) = 0"
| "ngroups (Opt r) = ngroups r"
| "ngroups (Star r) = ngroups r"
| "ngroups (Plus r) = ngroups r"
| "ngroups (Group r) = Suc (ngroups r)"
| "ngroups (Seq r1 r2) = ngroups r1 + ngroups r2"

fun flat :: "regex \<Rightarrow> bool" where
  "flat (Opt r) = (ngroups r = 0)"
| "flat (Star r) = (ngroups r = 0)"
| "flat (Plus r) = (ngroups r = 0)"
| "flat (Group r) = flat r"
| "flat (Seq r1 r2) = (flat r1 \<and> flat r2)"
| "flat r = True"

text \<open>The suffixes of a list, the shortest first.\<close>

fun suffixes_of :: "'a list \<Rightarrow> 'a list list" where
  "suffixes_of [] = [[]]"
| "suffixes_of (x # xs) = suffixes_of xs @ [x # xs]"

text \<open>
  The content that call \<open>n\<close> fetches for the blob at \<open>u\<close>; \<open>get_file_content\<close> always returns
  one (lemma \<open>get_file_content_fetched\<close>).
\<close>

definition fetched :: "env \<Rightarrow> nat \<Rightarrow> json \<Rightarrow> content" where
  "fetched e n u = (case get_file_content e n u of Inr c \<Rightarrow> c | Inl x \<Rightarrow> NoContent ErrorProcessing)"

fun is_text :: "content \<Rightarrow> bool" where
  "is_text (Text c) = True"
| "is_text (NoContent m) = False"

text \<open>The files of a listing with the numbers of the calls that fetch them.\<close>

definition numbered :: "nat \<Rightarrow> 'a list \<Rightarrow> (nat \<times> 'a) list" where
  "numbered n xs = zip [n..<n + length xs] xs"

text \<open>What one iteration of the loop appends to \<open>markdown_content\<close>.\<close>

fun pieces :: "env \<Rightarrow> file_info \<Rightarrow> content \<Rightarrow> pystr list" where
  "pieces e fi (Text c) =
     [heading e (file_path fi), py ''```'', processed_content c, py ''```\<newline>'', py ''---\<newline>'']"
| "pieces e fi (NoContent m) = [heading e (file_path fi), skip_notice, py ''---\<newline>'']"




section \<open>The document format of the specification\<close>

text \<open>
  The document in the words of the specification (section 6), to be compared with what
  the handler builds: a title line naming \<open>owner/repo\<close> and then, per file and in the order
  of the listing, a heading with the path in backticks, a fenced code block with the
  filtered content or else the fixed skip notice, and a separator \<open>---\<close>. The blank lines
  between the parts are those of the code.
\<close>

fun spec_section :: "pystr \<Rightarrow> content \<Rightarrow> pystr" where
  "spec_section p (Text c) =
     py ''\<newline>## `'' @ p @ py ''`\<newline>\<newline>```\<newline>'' @ processed_content c @
     py ''\<newline>```\<newline>\<newline>---\<newline>''"
| "spec_section p (NoContent m) =
     py ''\<newline>## `'' @ p @
     py ''`\<newline>\<newline>*Content skipped (binary, non-UTF8, or error fetching).*\<newline>\<newline>---\<newline>''"

definition spec_document :: "env \<Rightarrow> pystr \<Rightarrow> pystr \<Rightarrow> file_info list \<Rightarrow> pystr" where
  "spec_document e owner repo files =
     py ''# Codebase for '' @ owner @ py ''/'' @ repo @ py ''\<newline>\<newline>'' @
     concat (map (\<lambda>(n, fi). spec_section (format_value e (file_path fi))
                                (fetched e n (blob_url fi)))
                 (numbered 2 files))"

section \<open>Example environments\<close>

text \<open>
  The default branch is \<open>main\<close>. The tree listing is flagged as truncated; it has a text
  file, a directory, a binary file, a file of one blank line, a file in an encoding other
  than base64 and a file whose blob cannot be fetched; the empty file at \<open>u7\<close> is not in
  the listing. The functions of the library are given on the values of the example only.
\<close>

definition example_items :: "json list" where
  "example_items =
     [JObj [(py ''path'', JStr (py ''a.txt'')), (py ''type'', JStr (py ''blob'')),
            (py ''url'', JStr (py ''u1''))],
      JObj [(py ''path'', JStr (py ''src'')), (py ''type'', JStr (py ''tree'')),
            (py ''url'', JStr (py ''u2''))],
      JObj [(py ''path'', JStr (py ''src/logo.png'')), (py ''type'', JStr (py ''blob'')),
            (py ''url'', JStr (py ''u3''))],
      JObj [(py ''path'', JStr (py ''src/empty.txt'')), (py ''type'', JStr (py ''blob'')),
            (py ''url'', JStr (py ''u4''))],
      JObj [(py ''path'', JStr (py ''src/old.txt'')), (py ''type'', JStr (py ''blob'')),
            (py ''url'', JStr (py ''u5''))],
      JObj [(py ''path'', JStr (py ''src/gone.txt'')), (py ''type'', JStr (py ''blob'')),
            (py ''url'', JStr (py ''u6''))]]"

definition example_fields :: "(pystr \<times> json) list" where
  "example_fields =
     [(py ''sha'', JStr (py ''abc'')), (py ''tree'', JArr example_items),
      (py ''truncated'', JBool True)]"

definition example_tree :: json where
  "example_tree = JObj example_fields"

definition example_files :: "file_info list" where
  "example_files =
     [\<lparr>file_path = JStr (py ''a.txt''), blob_url = JStr (py ''u1'')\<rparr>,
      \<lparr>file_path = JStr (py ''src/logo.png''), blob_url = JStr (py ''u3'')\<rparr>,
      \<lparr>file_path = JStr (py ''src/empty.txt''), blob_url = JStr (py ''u4'')\<rparr>,
      \<lparr>file_path = JStr (py ''src/old.txt''), blob_url = JStr (py ''u5'')\<rparr>,
      \<lparr>file_path = JStr (py ''src/gone.txt''), blob_url = JStr (py ''u6'')\<rparr>]"

definition example_blob :: "json \<Rightarrow> exc + json" where
  "example_blob u =
     (if u = JStr (py ''u1'') then
        Inr (JObj [(py ''content'', JStr (py ''aGVsbG8KCndvcmxk'')),
                   (py ''encoding'', JStr (py ''base64''))])
      else if u = JStr (py ''u3'') then
        Inr (JObj [(py ''content'', JStr (py ''/w=='')), (py ''encoding'', JStr (py ''base64''))])
      else if u = JStr (py ''u4'') then
        Inr (JObj [(py ''content'', JStr (py ''IAo='')), (py ''encoding'', JStr (py ''base64''))])
      else if u = JStr (py ''u5'') then
        Inr (JObj [(py ''content'', JStr (py ''old'')), (py ''encoding'', JStr (py ''utf-8''))])
      else if u = JStr (py ''u7'') then
        Inr (JObj [(py ''content'', JStr []), (py ''encoding'', JStr (py ''base64''))])
      else Inl RequestException)"

definition example_api :: "nat \<Rightarrow> request \<Rightarrow> exc + json" where
  "example_api n req =
     (case req of
        RepoInfo owner repo \<Rightarrow> Inr (JObj [(py ''default_branch'', JStr (py ''main''))])
      | TreeListing owner repo branch \<Rightarrow> Inr example_tree
      | BlobContent u \<Rightarrow> example_blob u)"

definition example_b64decode :: "json \<Rightarrow> exc + nat list" where
  "example_b64decode v =
     (if v = JStr (py ''aGVsbG8KCndvcmxk'') then Inr (py ''hello\<newline>\<newline>world'')
      else if v = JStr (py ''/w=='') then Inr [255]
      else if v = JStr (py ''IAo='') then Inr (py '' \<newline>'')
      else if v = JStr [] then Inr []
      else Inl ValueError)"

definition example_utf8_decode :: "nat list \<Rightarrow> pystr option" where
  "example_utf8_decode bs = (if list_all (\<lambda>b. b < 128) bs then Some bs else None)"

definition example_env :: env where
  "example_env =
     \<lparr>api_get = example_api, b64decode = example_b64decode,
      utf8_decode = example_utf8_decode, py_repr = (\<lambda>v. [])\<rparr>"

definition example_url :: pystr where
  "example_url = py ''https://github.com/o/r''"

definition example_document :: pystr where
  "example_document =
     py ''# Codebase for o/r\<newline>\<newline>'' @
     py ''\<newline>## `a.txt`\<newline>\<newline>```\<newline>hello\<newline>world\<newline>```\<newline>\<newline>---\<newline>'' @
     py ''\<newline>## `src/logo.png`\<newline>\<newline>'' @
     py ''*Content skipped (binary, non-UTF8, or error fetching).*\<newline>\<newline>---\<newline>'' @
     py ''\<newline>## `src/empty.txt`\<newline>\<newline>```\<newline>\<newline>```\<newline>\<newline>---\<newline>'' @
     py ''\<newline>## `src/old.txt`\<newline>\<newline>'' @
     py ''*Content skipped (binary, non-UTF8, or error fetching).*\<newline>\<newline>---\<newline>'' @
     py ''\<newline>## `src/gone.txt`\<newline>\<newline>'' @
     py ''*Content skipped (binary, non-UTF8, or error fetching).*\<newline>\<newline>---\<newline>''"







section \<open>Properties of the URL parser\<close>

lemmas pattern_defs = parse_github_url_def patterns_def https_pattern_def ssh_pattern_def
  https_tail_def ssh_tail_def name_group_def re_match_def endswith_def

text \<open>
  C7: each of the four supported URL shapes \<open>https://github.com/o/r\<close>,
  \<open>https://github.com/o/r.git\<close>, \<open>https://github.com/o/r/tree/main\<close> and
  \<open>git@github.com:o/r.git\<close> is parsed to the owner \<open>o\<close> and the repository \<open>r\<close>; the suffix
  \<open>.git\<close> of the repository name is stripped.
\<close>

theorem parse_supported_shapes:
  "parse_github_url (py ''https://github.com/o/r'') = Some (py ''o'', py ''r'') \<and>
   parse_github_url (py ''https://github.com/o/r.git'') = Some (py ''o'', py ''r'') \<and>
   parse_github_url (py ''https://github.com/o/r/tree/main'') = Some (py ''o'', py ''r'') \<and>
   parse_github_url (py ''git@github.com:o/r.git'') = Some (py ''o'', py ''r'')"
  by (simp add: pattern_defs py_def)

lemma matches_no_group:
  "ngroups r = 0 \<Longrightarrow> st' \<in> set (matches r st) \<Longrightarrow> snd st' = snd st"
proof (induction r st arbitrary: st' rule: matches.induct)
  case (6 r st)
  from "6.prems"(2)[unfolded matches.simps(6)[of r st]] consider "st' = st"
    | x where "x \<in> set (matches r st)" "length (fst x) < length (fst st)"
        "st' \<in> set (matches (Star r) x)"
    by (auto simp del: matches.simps)
  then show ?case
  proof cases
    case 1 then show ?thesis by simp
  next
    case 2
    from "6.IH"(1)[OF _ 2(1)] "6.prems"(1) have "snd x = snd st" by simp
    moreover from "6.IH"(2)[of x st'] 2 "6.prems"(1) have "snd st' = snd x"
      by (simp del: matches.simps)
    ultimately show ?thesis by simp
  qed
next
  case (7 r st)
  from "7.prems"(2)[unfolded matches.simps(7)[of r st]]
  obtain x where x: "x \<in> set (matches r st)" "st' \<in> set (matches (Star r) x)"
    by (auto simp del: matches.simps)
  from "7.IH"(1)[OF _ x(1)] "7.prems"(1) have "snd x = snd st" by simp
  moreover from "7.IH"(2)[OF x(1) _ x(2)] "7.prems"(1) have "snd st' = snd x" by simp
  ultimately show ?case by simp
next
  case (9 r1 r2 st)
  from "9.prems"(2)[unfolded matches.simps(9)[of r1 r2 st]]
  obtain x where x: "x \<in> set (matches r1 st)" "st' \<in> set (matches r2 x)"
    by (auto simp del: matches.simps)
  from "9.IH"(1)[OF _ x(1)] "9.prems"(1) have "snd x = snd st" by simp
  moreover from "9.IH"(2)[OF x(1) _ x(2)] "9.prems"(1) have "snd st' = snd x" by simp
  ultimately show ?case by simp
qed (auto simp del: matches.simps(6,7,9) split: list.splits if_splits)

lemma matches_group_count:
  "flat r \<Longrightarrow> st' \<in> set (matches r st) \<Longrightarrow> length (snd st') = length (snd st) + ngroups r"
proof (induction r st arbitrary: st' rule: matches.induct)
  case (5 r st)
  then show ?case using matches_no_group[of "Opt r" st' st] by (simp del: matches.simps)
next
  case (6 r st)
  then show ?case using matches_no_group[of "Star r" st' st] by (simp del: matches.simps)
next
  case (7 r st)
  then show ?case using matches_no_group[of "Plus r" st' st] by (simp del: matches.simps)
next
  case (8 r s gs)
  from "8.prems"(2)[unfolded matches.simps(8)[of r s gs]]
  obtain s' gs' where x: "(s', gs') \<in> set (matches r (s, gs))"
      "st' = (s', gs' @ [take (length s - length s') s])"
    by (auto simp del: matches.simps)
  from "8.IH"[OF _ x(1)] "8.prems"(1) have "length gs' = length gs + ngroups r" by simp
  with x(2) show ?case by simp
next
  case (9 r1 r2 st)
  from "9.prems"(2)[unfolded matches.simps(9)[of r1 r2 st]]
  obtain x where x: "x \<in> set (matches r1 st)" "st' \<in> set (matches r2 x)"
    by (auto simp del: matches.simps)
  from "9.IH"(1)[OF _ x(1)] "9.prems"(1) have "length (snd x) = length (snd st) + ngroups r1"
    by simp
  moreover from "9.IH"(2)[OF x(1) _ x(2)] "9.prems"(1)
  have "length (snd st') = length (snd x) + ngroups r2" by simp
  ultimately show ?case by simp
qed (auto simp del: matches.simps(6,7,9) split: list.splits if_splits)

lemma lits_flat: "flat (lits cs)" "ngroups (lits cs) = 0"
  by (induction cs) simp_all

lemma patterns_two_groups:
  assumes "pattern \<in> set patterns" "re_match pattern u = Some gs"
  shows "\<exists>owner repo. gs = [owner, repo]"
proof -
  have fl: "flat pattern" "ngroups pattern = 2"
    using assms(1)
    by (auto simp: patterns_def https_pattern_def ssh_pattern_def https_tail_def ssh_tail_def
        name_group_def lits_flat)
  from assms(2) obtain rest more where "matches pattern (u, []) = (rest, gs) # more"
    by (auto simp: re_match_def split: list.splits)
  then have "(rest, gs) \<in> set (matches pattern (u, []))" by simp
  from matches_group_count[OF fl(1) this] fl(2) have "length gs = 2" by simp
  then show ?thesis
    by (cases gs; cases "tl gs"; cases "tl (tl gs)") auto
qed

lemma https_pattern_http:
  "re_match https_pattern (py ''http://github.com/'' @ rest) = re_match https_tail rest"
  by (simp add: https_pattern_def re_match_def py_def)

lemma https_pattern_https:
  "re_match https_pattern (py ''https://github.com/'' @ rest) = re_match https_tail rest"
  by (simp add: https_pattern_def re_match_def py_def)

lemma ssh_pattern_first: "c \<noteq> 103 \<Longrightarrow> re_match ssh_pattern (c # s) = None"
  by (simp add: ssh_pattern_def re_match_def py_def)

lemma http_same_as_https:
  "parse_github_url (py ''http://github.com/'' @ rest) =
   parse_github_url (py ''https://github.com/'' @ rest)"
proof -
  have a: "re_match ssh_pattern (py ''http://github.com/'' @ rest) = None"
    by (simp add: py_def ssh_pattern_first)
  have b: "re_match ssh_pattern (py ''https://github.com/'' @ rest) = None"
    by (simp add: py_def ssh_pattern_first)
  show ?thesis
    by (simp add: parse_github_url_def patterns_def https_pattern_http https_pattern_https a b
        split: option.split)
qed

lemma star_notchar:
  "c \<notin> set w \<Longrightarrow> (rest = [] \<or> hd rest = c) \<Longrightarrow>
   matches (Star (NotChar c)) (w @ rest, gs) = map (\<lambda>v. (v @ rest, gs)) (suffixes_of w)"
proof (induction w)
  case Nil
  then show ?case by (cases rest) auto
next
  case (Cons x w)
  then show ?case by simp
qed

lemma suffixes_of_hd: "\<exists>vs. suffixes_of w = [] # vs"
  by (induction w) auto

lemma suffixes_of_length: "v \<in> set (suffixes_of w) \<Longrightarrow> length v \<le> length w"
  by (induction w) auto

lemma group_plus_notchar:
  assumes "c \<notin> set w" "x \<noteq> c" "rest = [] \<or> hd rest = c"
  shows "matches (Group (Plus (NotChar c))) (x # w @ rest, gs) =
         map (\<lambda>v. (v @ rest, gs @ [take (Suc (length w) - length v) (x # w)])) (suffixes_of w)"
proof -
  have "matches (Plus (NotChar c)) (x # w @ rest, gs) = map (\<lambda>v. (v @ rest, gs)) (suffixes_of w)"
    using assms star_notchar[of c w rest gs] by simp
  then show ?thesis
    by (simp add: comp_def suffixes_of_length Suc_diff_le)
qed

lemma slash_after_suffixes:
  "c \<notin> set w \<Longrightarrow>
   concat (map (\<lambda>v. matches (Seq (Lit c) r) (v @ c # rest, h v)) (suffixes_of w)) =
   matches r (rest, h [])"
  by (induction w) auto

lemma name_then_slash:
  assumes "c \<notin> set w" "w \<noteq> []"
  shows "matches (Seq (Group (Plus (NotChar c))) (Seq (Lit c) r)) (w @ c # rest, gs) =
         matches r (rest, gs @ [w])"
proof -
  from assms obtain x w' where w: "w = x # w'" "x \<noteq> c" "c \<notin> set w'" by (cases w) auto
  have "matches (Group (Plus (NotChar c))) (x # w' @ c # rest, gs) =
         map (\<lambda>v. (v @ c # rest, gs @ [take (Suc (length w') - length v) (x # w')])) (suffixes_of w')"
    using group_plus_notchar[of c w' x "c # rest" gs] w by simp
  then show ?thesis
    using slash_after_suffixes[of c w' r rest "\<lambda>v. gs @ [take (Suc (length w') - length v) (x # w')]"] w
    by (simp add: comp_def)
qed

lemma star_dot_first: "\<exists>s1 more. matches (Star Dot) (t, g) = (s1, g) # more"
proof (induction t)
  case Nil show ?case by simp
next
  case (Cons x t)
  then obtain s1 more where ih: "matches (Star Dot) (t, g) = (s1, g) # more" by blast
  have step: "matches (Star Dot) (x # t, g) =
      (if x \<noteq> 10 then matches (Star Dot) (t, g) else []) @ [(x # t, g)]"
    by simp
  show ?case unfolding step ih by simp
qed

lemma trailer_first: "\<exists>s1 more. matches (Seq (Opt (Lit 47)) (Star Dot)) (t, g) = (s1, g) # more"
proof (cases t)
  case Nil
  then show ?thesis using star_dot_first[of "[]" g] by simp
next
  case (Cons x xs)
  show ?thesis
  proof (cases "x = 47")
    case True
    obtain s1 more where "matches (Star Dot) (xs, g) = (s1, g) # more"
      using star_dot_first by blast
    then show ?thesis using Cons True by simp
  next
    case False
    obtain s1 more where "matches (Star Dot) (t, g) = (s1, g) # more"
      using star_dot_first by blast
    then show ?thesis using Cons False by simp
  qed
qed

lemma https_tail_match:
  assumes "47 \<notin> set owner" "owner \<noteq> []" "47 \<notin> set repo" "repo \<noteq> []" "rest = [] \<or> hd rest = 47"
  shows "re_match https_tail (owner @ 47 # repo @ rest) = Some [owner, repo]"
proof -
  from assms obtain x w where r: "repo = x # w" "x \<noteq> 47" "47 \<notin> set w" by (cases repo) auto
  obtain vs where vs: "suffixes_of w = [] # vs" using suffixes_of_hd by blast
  obtain s1 more where tr: "matches (Seq (Opt (Lit 47)) (Star Dot)) (rest, [owner, repo]) = (s1, [owner, repo]) # more"
    using trailer_first by blast
  have "matches https_tail (owner @ 47 # repo @ rest, []) =
        matches (Seq name_group (Seq (Opt (Lit 47)) (Star Dot))) (repo @ rest, [owner])"
    unfolding https_tail_def name_group_def
    using name_then_slash[of 47 owner _ "repo @ rest" "[]"] assms by simp
  also have "\<dots> = concat (map (matches (Seq (Opt (Lit 47)) (Star Dot)))
        (map (\<lambda>v. (v @ rest, [owner] @ [take (Suc (length w) - length v) (x # w)])) (suffixes_of w)))"
    unfolding name_group_def
    using group_plus_notchar[of 47 w x rest "[owner]"] r assms by simp
  also have "\<dots> = (s1, [owner, repo]) # more @ concat (map (matches (Seq (Opt (Lit 47)) (Star Dot)))
        (map (\<lambda>v. (v @ rest, [owner] @ [take (Suc (length w) - length v) (x # w)])) vs))"
    using vs tr r by simp
  finally show ?thesis by (simp add: re_match_def)
qed

text \<open>
  C8: a URL that matches neither the HTTPS pattern nor the SSH pattern is not parsed, and
  the handler answers with the bad-input error (status 400) whatever the environment is,
  so without a call to the network. \<open>ftp://example.com/x\<close> is such a URL.
\<close>

theorem unmatched_url_is_bad_input:
  assumes "re_match https_pattern u = None" and "re_match ssh_pattern u = None"
    and "map_of kvs (py ''url'') = Some (JStr u)"
  shows "parse_github_url u = None \<and>
         convert_repo e (JObj kvs) = JsonError 400 (py ''Invalid GitHub repository URL format.'')"
proof -
  have p: "parse_github_url u = None"
    using assms(1,2) by (simp add: parse_github_url_def patterns_def)
  have "fst (py ''url'', JStr u) \<in> fst ` set kvs"
    using map_of_SomeD[OF assms(3)] by (rule imageI)
  then have k: "kvs \<noteq> []" "py ''url'' \<in> fst ` set kvs"
    by auto
  show ?thesis
    using p k assms(3) by (simp add: convert_repo_def convert_url_def invalid_url_error_def)
qed

theorem unmatched_url_is_bad_input_witness:
  "re_match https_pattern (py ''ftp://example.com/x'') = None \<and>
   re_match ssh_pattern (py ''ftp://example.com/x'') = None \<and>
   parse_github_url (py ''ftp://example.com/x'') = None \<and>
   convert_repo example_env (JObj [(py ''url'', JStr (py ''ftp://example.com/x''))]) =
     JsonError 400 (py ''Invalid GitHub repository URL format.'')"
proof -
  have h1: "re_match https_pattern (py ''ftp://example.com/x'') = None"
    by (simp add: https_pattern_def re_match_def py_def)
  have h2: "re_match ssh_pattern (py ''ftp://example.com/x'') = None"
    by (simp add: ssh_pattern_def re_match_def py_def)
  have h3: "map_of [(py ''url'', JStr (py ''ftp://example.com/x''))] (py ''url'') =
            Some (JStr (py ''ftp://example.com/x''))"
    by simp
  show ?thesis
    using unmatched_url_is_bad_input[OF h1 h2 h3, of example_env] h1 h2 by simp
qed

text \<open>
  C9: a URL with the scheme \<open>http\<close> is parsed exactly as the same URL with the scheme
  \<open>https\<close>; for \<open>http://github.com/owner/repo\<close>, alone or followed by \<open>/...\<close>, the result
  is the owner and the repository, the latter without a suffix \<open>.git\<close>.
\<close>

theorem http_scheme_accepted:
  "parse_github_url (py ''http://github.com/'' @ rest) =
     parse_github_url (py ''https://github.com/'' @ rest) \<and>
   (owner \<noteq> [] \<and> repo \<noteq> [] \<and> 47 \<notin> set owner \<and> 47 \<notin> set repo \<and> (tail = [] \<or> hd tail = 47) \<longrightarrow>
      parse_github_url (py ''http://github.com/'' @ owner @ py ''/'' @ repo @ tail) =
        Some (owner, if endswith repo (py ''.git'') then take (length repo - 4) repo else repo))"
proof (intro conjI impI)
  show "parse_github_url (py ''http://github.com/'' @ rest) =
        parse_github_url (py ''https://github.com/'' @ rest)"
    by (rule http_same_as_https)
next
  assume a: "owner \<noteq> [] \<and> repo \<noteq> [] \<and> 47 \<notin> set owner \<and> 47 \<notin> set repo \<and> (tail = [] \<or> hd tail = 47)"
  then have "re_match https_tail (owner @ 47 # repo @ tail) = Some [owner, repo]"
    using https_tail_match[of owner repo tail] by simp
  then have "re_match https_pattern (py ''http://github.com/'' @ owner @ py ''/'' @ repo @ tail) =
             Some [owner, repo]"
    using https_pattern_http[of "owner @ py ''/'' @ repo @ tail"] by (simp add: py_def)
  then show "parse_github_url (py ''http://github.com/'' @ owner @ py ''/'' @ repo @ tail) =
        Some (owner, if endswith repo (py ''.git'') then take (length repo - 4) repo else repo)"
    by (simp add: parse_github_url_def patterns_def)
qed

theorem http_scheme_accepted_witness:
  "parse_github_url (py ''http://github.com/o/r.git/tree/main'') = Some (py ''o'', py ''r'') \<and>
   parse_github_url (py ''https://github.com/o/r.git/tree/main'') = Some (py ''o'', py ''r'')"
proof -
  note t = http_scheme_accepted[of "py ''o/r.git/tree/main''" "py ''o''" "py ''r.git''" "py ''/tree/main''"]
  from t[THEN conjunct2]
  have a: "parse_github_url (py ''http://github.com/o/r.git/tree/main'') = Some (py ''o'', py ''r'')"
    by (simp add: py_def endswith_def)
  from t[THEN conjunct1] have "parse_github_url (py ''http://github.com/o/r.git/tree/main'') =
               parse_github_url (py ''https://github.com/o/r.git/tree/main'')"
    by (simp add: py_def)
  with a show ?thesis by simp
qed

section \<open>Properties of the blank-line filter\<close>

lemma splitlines_from_Cons:
  "splitlines_from cur (c # s) =
     (if is_linebreak c then
        cur # splitlines_from [] (if c = 13 \<and> s \<noteq> [] \<and> hd s = 10 then tl s else s)
      else splitlines_from (cur @ [c]) s)"
  by (cases s) auto

lemma splitlines_from_append:
  "\<forall>c\<in>set l. \<not> is_linebreak c \<Longrightarrow> splitlines_from cur (l @ s) = splitlines_from (cur @ l) s"
  by (induction l arbitrary: cur) (simp_all add: splitlines_from_Cons)

lemma splitlines_join:
  "\<forall>l\<in>set ls. l \<noteq> [] \<and> (\<forall>c\<in>set l. \<not> is_linebreak c) \<Longrightarrow>
   splitlines_from [] (join [10] ls) = ls"
proof (induction ls)
  case Nil
  show ?case by simp
next
  case (Cons x xs)
  show ?case
  proof (cases xs)
    case Nil
    then show ?thesis using Cons.prems splitlines_from_append[of x "[]" "[]"] by simp
  next
    case (Cons y ys)
    have "splitlines_from [] (x @ 10 # join [10] xs) = splitlines_from x (10 # join [10] xs)"
      using Cons.prems splitlines_from_append[of x "[]"] by simp
    also have "\<dots> = x # splitlines_from [] (join [10] xs)"
      by (simp add: splitlines_from_Cons is_linebreak_def)
    finally show ?thesis using Cons.IH Cons.prems Cons by simp
  qed
qed

lemma splitlines_from_no_break:
  "\<forall>c\<in>set cur. \<not> is_linebreak c \<Longrightarrow>
   \<forall>l\<in>set (splitlines_from cur s). \<forall>c\<in>set l. \<not> is_linebreak c"
proof (induction cur s rule: splitlines_from.induct)
  case (1 cur)
  then show ?case by simp
next
  case (2 cur c)
  then show ?case by simp
next
  case (3 cur c d s)
  show ?case
  proof (cases "is_linebreak c")
    case True
    show ?thesis
    proof (cases "c = 13 \<and> d = 10")
      case True
      have "\<forall>l\<in>set (splitlines_from [] s). \<forall>c\<in>set l. \<not> is_linebreak c"
        using "3.IH"(1)[OF \<open>is_linebreak c\<close> True] by simp
      then show ?thesis using \<open>is_linebreak c\<close> True "3.prems"  
        apply (simp only: splitlines_from.simps if_True set_simps ball_simps)
        apply simp
        done
    next
      case False
      have "\<forall>l\<in>set (splitlines_from [] (d # s)). \<forall>c\<in>set l. \<not> is_linebreak c"
        using "3.IH"(2)[OF \<open>is_linebreak c\<close> False] by simp
      then show ?thesis using \<open>is_linebreak c\<close> False "3.prems"
        by (simp only: splitlines_from.simps if_True if_False set_simps ball_simps)
    qed
  next
    case False
    have "\<forall>l\<in>set (splitlines_from (cur @ [c]) (d # s)). \<forall>c\<in>set l. \<not> is_linebreak c"
      using "3.IH"(3)[OF False] "3.prems" False by simp
    then show ?thesis using False
      by (simp only: splitlines_from.simps if_False)
  qed
qed

lemma strip_Nil: "strip [] = []"
  by (simp add: strip_def)

text \<open>
  C3: the body of a text file is its content split into lines, without the lines whose
  stripped form is empty, joined by LF. For the content \<open>a\n\n  \nb\n\<close> it is \<open>a\nb\<close>.
  Splitting the body again gives exactly the lines that were kept, in their order: no line
  is changed, added or lost.
\<close>

theorem blank_line_filtering:
  "processed_content (py ''a\<newline>\<newline>  \<newline>b\<newline>'') = py ''a\<newline>b'' \<and>
   processed_content c = join (py ''\<newline>'') (filter (\<lambda>l. strip l \<noteq> []) (splitlines c)) \<and>
   splitlines (processed_content c) = filter (\<lambda>l. strip l \<noteq> []) (splitlines c)"
proof (intro conjI)
  show "processed_content (py ''a\<newline>\<newline>  \<newline>b\<newline>'') = py ''a\<newline>b''"
    by (simp add: processed_content_def splitlines_def py_def is_linebreak_def strip_def is_space_def)
  show "processed_content c = join (py ''\<newline>'') (filter (\<lambda>l. strip l \<noteq> []) (splitlines c))"
    by (simp add: processed_content_def)
  have nb: "\<forall>l\<in>set (splitlines_from [] c). \<forall>x\<in>set l. \<not> is_linebreak x"
    using splitlines_from_no_break[of "[]" c] by simp
  have "\<forall>l\<in>set (filter (\<lambda>l. strip l \<noteq> []) (splitlines c)).
          l \<noteq> [] \<and> (\<forall>x\<in>set l. \<not> is_linebreak x)"
  proof (intro ballI conjI)
    fix l assume l: "l \<in> set (filter (\<lambda>l. strip l \<noteq> []) (splitlines c))"
    then have "strip l \<noteq> []" by simp
    then show "l \<noteq> []" using strip_Nil by blast
    from l have "l \<in> set (splitlines_from [] c)" by (simp add: splitlines_def)
    with nb show "\<And>x. x \<in> set l \<Longrightarrow> \<not> is_linebreak x" by blast
  qed
  from splitlines_join[OF this]
  show "splitlines (processed_content c) = filter (\<lambda>l. strip l \<noteq> []) (splitlines c)"
    by (simp add: processed_content_def splitlines_def py_def)
qed

section \<open>Properties of the loop over the files\<close>

lemma get_file_content_fetched: "get_file_content e n u = Inr (fetched e n u)"
  by (simp add: fetched_def get_file_content_def split: sum.splits)

lemma numbered_Nil: "numbered n [] = []"
  by (simp add: numbered_def)

lemma numbered_Cons: "numbered n (x # xs) = (n, x) # numbered (Suc n) xs"
  by (simp add: numbered_def upt_conv_Cons del: upt_Suc)


lemma add_file_pieces:
  "add_file e fi c (md, p, s) =
     (md @ pieces e fi c, p + (if is_text c then 1 else 0), s + (if is_text c then 0 else 1))"
  by (cases c) simp_all

lemma process_files_result:
  "process_files e n files (md, p, s) =
     Inr (md @ concat (map (\<lambda>(k, fi). pieces e fi (fetched e k (blob_url fi))) (numbered n files)),
          p + length (filter (\<lambda>(k, fi). is_text (fetched e k (blob_url fi))) (numbered n files)),
          s + length (filter (\<lambda>(k, fi). \<not> is_text (fetched e k (blob_url fi))) (numbered n files)))"
proof (induction files arbitrary: n md p s)
  case Nil
  show ?case by (simp add: numbered_Nil)
next
  case (Cons fi files)
  show ?case
    by (simp add: get_file_content_fetched add_file_pieces Cons.IH numbered_Cons)
qed

lemma join_Cons: "join sep (x # ys) = x @ concat (map (\<lambda>y. sep @ y) ys)"
  by (induction ys arbitrary: x) simp_all

lemma section_of_pieces:
  "concat (map (\<lambda>y. py ''\<newline>'' @ y) (pieces e fi c)) = spec_section (format_value e (file_path fi)) c"
  by (cases c) (simp_all add: heading_def skip_notice_def py_def)

lemma join_document:
  "join (py ''\<newline>'')
     ([title owner repo] @
      concat (map (\<lambda>(k, fi). pieces e fi (fetched e k (blob_url fi))) (numbered 2 files))) =
   spec_document e owner repo files"
proof -
  have "concat (map (\<lambda>y. py ''\<newline>'' @ y)
          (concat (map (\<lambda>(k, fi). pieces e fi (fetched e k (blob_url fi))) zs))) =
        concat (map (\<lambda>(n, fi). spec_section (format_value e (file_path fi))
                                (fetched e n (blob_url fi))) zs)" for zs
    by (induction zs) (auto simp: section_of_pieces)
  then show ?thesis
    by (simp add: join_Cons spec_document_def title_def)
qed




section \<open>Properties of the handler\<close>

lemmas error_defs = missing_url_error_def invalid_url_error_def branch_error_def
  file_list_error_def empty_repo_error_def

lemma convert_repo_url:
  assumes "map_of kvs (py ''url'') = Some (JStr u)"
  shows "convert_repo e (JObj kvs) = convert_url e u"
proof -
  have "fst (py ''url'', JStr u) \<in> fst ` set kvs"
    using map_of_SomeD[OF assms] by (rule imageI)
  then have "kvs \<noteq> []" "py ''url'' \<in> fst ` set kvs" by auto
  then show ?thesis using assms by (simp add: convert_repo_def)
qed

lemma convert_repo_Markdown:
  assumes "convert_repo e data = Markdown doc p s"
  shows "\<exists>u. py_item data (py ''url'') = Inr (JStr u) \<and> convert_url e u = Markdown doc p s"
  using assms
  by (simp add: convert_repo_def missing_url_error_def split: if_splits sum.splits json.splits)

lemma convert_url_Markdown:
  assumes "convert_url e u = Markdown doc p s"
  shows "\<exists>owner repo branch files md.
           parse_github_url u = Some (owner, repo) \<and> owner \<noteq> [] \<and> repo \<noteq> [] \<and>
           get_default_branch e 0 owner repo = Inr branch \<and> truthy branch \<and>
           get_repo_files e 1 owner repo branch = Inr (Some files) \<and> files \<noteq> [] \<and>
           process_files e 2 files ([title owner repo], 0, 0) = Inr (md, p, s) \<and>
           doc = join (py ''\<newline>'') md"
  using assms
  by (simp add: convert_url_def error_defs markdown_response_def
      split: if_splits sum.splits option.splits prod.splits)

lemma convert_url_listing:
  assumes "parse_github_url u = Some (owner, repo)" "owner \<noteq> []" "repo \<noteq> []"
    and "get_default_branch e 0 owner repo = Inr branch" "truthy branch"
    and "get_repo_files e 1 owner repo branch = Inr (Some files)" "files \<noteq> []"
  shows "convert_url e u =
           markdown_response (spec_document e owner repo files)
             (length (filter (\<lambda>(k, fi). is_text (fetched e k (blob_url fi))) (numbered 2 files)))
             (length (filter (\<lambda>(k, fi). \<not> is_text (fetched e k (blob_url fi))) (numbered 2 files)))"
  using assms join_document[of owner repo e files]
  by (simp add: convert_url_def process_files_result)




section \<open>The example environment, evaluated\<close>

lemmas example_defs = example_env_def example_api_def example_blob_def example_tree_def
  example_fields_def example_items_def example_b64decode_def example_utf8_decode_def example_files_def example_url_def

lemma example_parse: "parse_github_url example_url = Some (py ''o'', py ''r'')"
  by (simp add: example_url_def pattern_defs py_def)

lemma example_branch: "get_default_branch example_env 0 (py ''o'') (py ''r'') = Inr (JStr (py ''main''))"
  by (simp add: get_default_branch_def get_default_branch_try_def example_defs)

lemma example_listing:
  "get_repo_files example_env 1 (py ''o'') (py ''r'') (JStr (py ''main'')) = Inr (Some example_files)"
  by (simp add: get_repo_files_def get_repo_files_try_def example_defs py_def)

lemma example_fetched:
  "fetched example_env n (JStr (py ''u1'')) = Text (py ''hello\<newline>\<newline>world'')"
  "fetched example_env n (JStr (py ''u3'')) = NoContent SkippingBinary"
  "fetched example_env n (JStr (py ''u4'')) = Text (py '' \<newline>'')"
  "fetched example_env n (JStr (py ''u5'')) = NoContent SkippingUnsupportedEncoding"
  "fetched example_env n (JStr (py ''u6'')) = NoContent ErrorFetching"
  by (simp_all add: fetched_def get_file_content_def get_file_content_try_def example_defs py_def)

lemma example_processed:
  "processed_content (py ''hello\<newline>\<newline>world'') = py ''hello\<newline>world''"
  "processed_content (py '' \<newline>'') = []"
  by (simp_all add: processed_content_def splitlines_def strip_def is_linebreak_def is_space_def py_def)

lemma example_document_eq: "spec_document example_env (py ''o'') (py ''r'') example_files = example_document"
  by (simp add: spec_document_def example_files_def numbered_Cons numbered_Nil example_fetched
      example_processed format_value_def example_document_def)
    (simp add: py_def)

lemma example_counts:
  "length (filter (\<lambda>(k, fi). is_text (fetched example_env k (blob_url fi)))
     (numbered 2 example_files)) = 2"
  "length (filter (\<lambda>(k, fi). \<not> is_text (fetched example_env k (blob_url fi)))
     (numbered 2 example_files)) = 3"
  by (simp_all add: example_files_def numbered_Cons numbered_Nil example_fetched)

lemma example_names: "py ''o'' \<noteq> []" "py ''r'' \<noteq> []" "truthy (JStr (py ''main''))"
  by (simp_all add: py_def)

lemma example_files_nonempty: "example_files \<noteq> []"
  by (simp add: example_files_def)

lemma example_encodable: "utf8_encodable example_document"
  by (simp add: example_document_def utf8_encodable_def py_def)

lemma example_convert: "convert_url example_env example_url = Markdown example_document 2 3"
  using convert_url_listing[OF example_parse example_names(1,2) example_branch example_names(3)
      example_listing example_files_nonempty]
  by (simp add: example_document_eq example_counts markdown_response_def example_encodable)

section \<open>The claims about the pipeline\<close>

text \<open>
  C1: the document of a successful conversion is the title line \<open># Codebase for owner/repo\<close>
  followed by one section per entry of the listing that \<open>get_repo_files\<close> returned, in the
  order of that listing; a section is the heading with the path in backticks, then the
  fenced code block with the filtered content or, for a file without content, the fixed
  skip notice, then the separator \<open>---\<close> (\<open>spec_document\<close> and \<open>spec_section\<close>).
\<close>

theorem document_structure:
  assumes "convert_repo e data = Markdown doc p s"
  shows "\<exists>u owner repo branch files.
           py_item data (py ''url'') = Inr (JStr u) \<and>
           parse_github_url u = Some (owner, repo) \<and>
           get_default_branch e 0 owner repo = Inr branch \<and>
           get_repo_files e 1 owner repo branch = Inr (Some files) \<and>
           doc = spec_document e owner repo files"
proof -
  from convert_repo_Markdown[OF assms] obtain u where
    u: "py_item data (py ''url'') = Inr (JStr u)" "convert_url e u = Markdown doc p s"
    by blast
  from convert_url_Markdown[OF u(2)] obtain owner repo branch files where
    c: "parse_github_url u = Some (owner, repo)" "owner \<noteq> []" "repo \<noteq> []"
       "get_default_branch e 0 owner repo = Inr branch" "truthy branch"
       "get_repo_files e 1 owner repo branch = Inr (Some files)" "files \<noteq> []"
    by blast
  from convert_url_listing[OF c] u(2) have "doc = spec_document e owner repo files"
    by (simp add: markdown_response_def split: if_splits)
  with u(1) c show ?thesis by blast
qed

theorem document_structure_witness:
  "convert_repo example_env (JObj [(py ''url'', JStr example_url)]) = Markdown example_document 2 3 \<and>
   (\<exists>u owner repo branch files.
      py_item (JObj [(py ''url'', JStr example_url)]) (py ''url'') = Inr (JStr u) \<and>
      parse_github_url u = Some (owner, repo) \<and>
      get_default_branch example_env 0 owner repo = Inr branch \<and>
      get_repo_files example_env 1 owner repo branch = Inr (Some files) \<and>
      example_document = spec_document example_env owner repo files)"
proof -
  have h: "convert_repo example_env (JObj [(py ''url'', JStr example_url)]) =
           Markdown example_document 2 3"
    using convert_repo_url[of "[(py ''url'', JStr example_url)]" example_url example_env]
    by (simp add: example_convert)
  from document_structure[OF h] h show ?thesis by blast
qed



































end
